theory Spec2Isabelle
  imports Main
begin

section \<open>Data model\<close>

text \<open>
  The persistent state consists of three tables: \<open>users\<close>, \<open>diagrams\<close> and
  \<open>diagram_shares\<close> (migrations/001_initial_schema.sql, models/DiagramShare.ts).
  A table is a list of rows. Identifiers are UUIDs, kept as strings; the syntax of a UUID
  is checked in the routes and is not part of this development. Timestamps are natural
  numbers. Sequelize's bookkeeping columns \<open>createdAt\<close> and \<open>updatedAt\<close> are maintained by
  the library itself and are left out of the rows.
\<close>

type_synonym uuid = string
type_synonym time = nat

text \<open>A JSONB column holds a JSON value (numbers restricted to integers).\<close>

datatype json =
    JNull
  | JBool bool
  | JNum int
  | JStr string
  | JArr "json list"
  | JObj "(string \<times> json) list"

text \<open>models/DiagramShare.ts: \<open>enum PermissionLevel\<close>.\<close>

datatype PermissionLevel = VIEWER | EDITOR | OWNER

text \<open>
  A row of \<open>diagrams\<close>. The column \<open>id\<close> is called \<open>diagId\<close> here, the name
  \<open>id\<close> being the identity function of HOL, and the column \<open>notes\<close> is called
  \<open>notes'\<close>, the word being reserved.
\<close>

record Diagram =
  diagId :: uuid
  userId :: uuid
  name :: string
  database :: string
  tables :: json
  references :: json
  notes' :: json
  areas :: json
  todos :: json
  enums :: json
  types :: json
  pan :: json
  zoom :: json
  gistId :: "string option"
  loadedFromGistId :: "string option"
  lastModified :: time
  lastModifiedBy :: "uuid option"
  version :: int
  isShared :: bool

text \<open>A row of \<open>diagram_shares\<close>; its column \<open>id\<close> is called \<open>shareId\<close>.\<close>

record DiagramShare =
  shareId :: uuid
  diagramId :: uuid
  sharedWithUserId :: uuid
  sharedByUserId :: uuid
  permissionLevel :: PermissionLevel

record db =
  users :: "uuid list"
  diagrams :: "Diagram list"
  diagram_shares :: "DiagramShare list"

text \<open>
  A JavaScript object holding attributes of a diagram (a request body, or the argument of
  \<open>Diagram.create\<close> and \<open>diagram.update\<close>) is a list of attribute assignments, applied
  from left to right: in the spread \<open>{...a, k: v}\<close> the later entry wins, which is
  \<open>a @ [k v]\<close> here.
\<close>

datatype attr =
    A_id uuid
  | A_userId uuid
  | A_name string
  | A_database string
  | A_tables json
  | A_references json
  | A_notes json
  | A_areas json
  | A_todos json
  | A_enums json
  | A_types json
  | A_pan json
  | A_zoom json
  | A_gistId "string option"
  | A_loadedFromGistId "string option"
  | A_lastModified time
  | A_lastModifiedBy "uuid option"
  | A_version int
  | A_isShared bool

text \<open>The JSON bodies the controller sends, each together with its HTTP status.\<close>

datatype res_body =
    Error string
  | DiagramJson Diagram
  | DiagramWithShares Diagram "DiagramShare list"
  | DiagramLists "Diagram list" "(Diagram \<times> PermissionLevel option) list"
  | Conflict string int time "uuid option" Diagram
  | SyncConflict string Diagram
  | InSync int
  | VersionInfo uuid int time "uuid option"
  | Message string
  | ShareJson string DiagramShare
  | SharesJson "DiagramShare list"
  | SharedWithMe "(Diagram option \<times> PermissionLevel \<times> uuid) list"

type_synonym response = "nat \<times> res_body"

section \<open>The tables and their constraints\<close>

text \<open>
  The column constraints of \<open>diagrams\<close> in migrations/001_initial_schema.sql:
  \<open>name VARCHAR(255)\<close>, \<open>database VARCHAR(50)\<close>, \<open>gist_id VARCHAR(255)\<close>,
  \<open>loaded_from_gist_id VARCHAR(255)\<close>, \<open>user_id\<close> and \<open>last_modified_by\<close> referencing
  \<open>users(id)\<close>, \<open>version INTEGER\<close> (32 bits, signed), \<open>NOT NULL\<close> on the JSONB columns
  \<open>tables\<close>, \<open>references\<close>, \<open>notes\<close>, \<open>areas\<close> and \<open>todos\<close>, and \<open>zoom FLOAT\<close>, which
  holds a number or null. The other columns that are \<open>NOT NULL\<close> have a type without null
  here. A statement that violates a constraint raises a database error. Every statement
  is checked on the whole row it leaves: the columns it does not write satisfy their
  constraints since the statement that wrote them.
\<close>

definition varchar_ok :: "nat \<Rightarrow> string option \<Rightarrow> bool" where
  "varchar_ok n v = (case v of None \<Rightarrow> True | Some x \<Rightarrow> length x \<le> n)"

definition user_ref_ok :: "db \<Rightarrow> uuid option \<Rightarrow> bool" where
  "user_ref_ok s v = (case v of None \<Rightarrow> True | Some u \<Rightarrow> u \<in> set (users s))"

definition not_null :: "json \<Rightarrow> bool" where
  "not_null j = (case j of JNull \<Rightarrow> False | _ \<Rightarrow> True)"

definition float_ok :: "json \<Rightarrow> bool" where
  "float_ok j = (case j of JNull \<Rightarrow> True | JNum n \<Rightarrow> True | _ \<Rightarrow> False)"

definition row_ok :: "db \<Rightarrow> Diagram \<Rightarrow> bool" where
  "row_ok s d \<longleftrightarrow>
     length (name d) \<le> 255 \<and> length (database d) \<le> 50 \<and>
     not_null (tables d) \<and> not_null (references d) \<and> not_null (notes' d) \<and>
     not_null (areas d) \<and> not_null (todos d) \<and> float_ok (zoom d) \<and>
     varchar_ok 255 (gistId d) \<and> varchar_ok 255 (loadedFromGistId d) \<and>
     userId d \<in> set (users s) \<and> user_ref_ok s (lastModifiedBy d) \<and>
     - 2147483648 \<le> version d \<and> version d \<le> 2147483647"

text \<open>\<open>Diagram.findByPk(id)\<close> and \<open>Diagram.findOne({ where: { id } })\<close>.\<close>

definition findByPk :: "Diagram list \<Rightarrow> uuid \<Rightarrow> Diagram option" where
  "findByPk ds i = find (\<lambda>d. diagId d = i) ds"

text \<open>\<open>Diagram.findOne({ where: { id, userId: req.userId } })\<close>.\<close>

definition findOwned :: "Diagram list \<Rightarrow> uuid \<Rightarrow> uuid \<Rightarrow> Diagram option" where
  "findOwned ds i u = find (\<lambda>d. diagId d = i \<and> userId d = u) ds"

text \<open>
  \<open>DiagramShare.findOne({ where: { diagramId, sharedWithUserId } })\<close>, and the same query
  restricted to \<open>permissionLevel\<close> in \<open>[EDITOR, OWNER]\<close> (\<open>Op.in\<close>).
\<close>

definition findShare :: "DiagramShare list \<Rightarrow> uuid \<Rightarrow> uuid \<Rightarrow> DiagramShare option" where
  "findShare shs i u = find (\<lambda>e. diagramId e = i \<and> sharedWithUserId e = u) shs"

definition findEditShare :: "DiagramShare list \<Rightarrow> uuid \<Rightarrow> uuid \<Rightarrow> DiagramShare option" where
  "findEditShare shs i u =
     find (\<lambda>e. diagramId e = i \<and> sharedWithUserId e = u \<and>
                permissionLevel e \<in> set [EDITOR, OWNER]) shs"

text \<open>
  Setting attributes on a model instance. On a row that is already stored Sequelize ignores
  an assignment to the primary key; on a row being built the key can be given.
\<close>

fun set_attr :: "attr \<Rightarrow> Diagram \<Rightarrow> Diagram" where
  "set_attr (A_id i) d = d"
| "set_attr (A_userId u) d = d\<lparr>userId := u\<rparr>"
| "set_attr (A_name n) d = d\<lparr>name := n\<rparr>"
| "set_attr (A_database x) d = d\<lparr>database := x\<rparr>"
| "set_attr (A_tables j) d = d\<lparr>tables := j\<rparr>"
| "set_attr (A_references j) d = d\<lparr>references := j\<rparr>"
| "set_attr (A_notes j) d = d\<lparr>notes' := j\<rparr>"
| "set_attr (A_areas j) d = d\<lparr>areas := j\<rparr>"
| "set_attr (A_todos j) d = d\<lparr>todos := j\<rparr>"
| "set_attr (A_enums j) d = d\<lparr>enums := j\<rparr>"
| "set_attr (A_types j) d = d\<lparr>types := j\<rparr>"
| "set_attr (A_pan j) d = d\<lparr>pan := j\<rparr>"
| "set_attr (A_zoom j) d = d\<lparr>zoom := j\<rparr>"
| "set_attr (A_gistId g) d = d\<lparr>gistId := g\<rparr>"
| "set_attr (A_loadedFromGistId g) d = d\<lparr>loadedFromGistId := g\<rparr>"
| "set_attr (A_lastModified t) d = d\<lparr>lastModified := t\<rparr>"
| "set_attr (A_lastModifiedBy u) d = d\<lparr>lastModifiedBy := u\<rparr>"
| "set_attr (A_version v) d = d\<lparr>version := v\<rparr>"
| "set_attr (A_isShared b) d = d\<lparr>isShared := b\<rparr>"

fun build_attr :: "attr \<Rightarrow> Diagram \<Rightarrow> Diagram" where
  "build_attr (A_id i) d = d\<lparr>diagId := i\<rparr>"
| "build_attr a d = set_attr a d"

text \<open>
  The column defaults: \<open>id\<close> is a fresh UUID (\<open>uuid_generate_v4\<close>), \<open>last_modified\<close> the
  current time. \<open>user_id\<close> has no default; every caller of \<open>Diagram.create\<close> sets it.
\<close>

definition defaults :: "time \<Rightarrow> uuid \<Rightarrow> Diagram" where
  "defaults now fresh =
     \<lparr>diagId = fresh, userId = [], name = ''Untitled Diagram'', database = ''generic'',
      tables = JArr [], references = JArr [], notes' = JArr [], areas = JArr [],
      todos = JArr [], enums = JNull, types = JNull,
      pan = JObj [(''x'', JNum 0), (''y'', JNum 0)], zoom = JNum 1,
      gistId = None, loadedFromGistId = None, lastModified = now, lastModifiedBy = None,
      version = 1, isShared = False\<rparr>"

text \<open>
  \<open>Diagram.create(values)\<close>: INSERT. \<open>None\<close> is the database error (a constraint of the
  row, or a primary key that is already taken), which the controller's \<open>catch\<close> turns into
  status 500.
\<close>

definition Diagram_create :: "db \<Rightarrow> time \<Rightarrow> uuid \<Rightarrow> attr list \<Rightarrow> (Diagram \<times> db) option" where
  "Diagram_create s now fresh vals =
     (let d = fold build_attr vals (defaults now fresh) in
      if row_ok s d \<and> findByPk (diagrams s) (diagId d) = None
      then Some (d, s\<lparr>diagrams := diagrams s @ [d]\<rparr>)
      else None)"

text \<open>\<open>diagram.update(values)\<close> on a stored instance: UPDATE of the row with its key.\<close>

definition Diagram_update :: "db \<Rightarrow> Diagram \<Rightarrow> attr list \<Rightarrow> (Diagram \<times> db) option" where
  "Diagram_update s diagram vals =
     (let d = fold set_attr vals diagram in
      if row_ok s d
      then Some (d, s\<lparr>diagrams := map (\<lambda>r. if diagId r = diagId d then d else r) (diagrams s)\<rparr>)
      else None)"

text \<open>
  \<open>diagram.destroy()\<close>: DELETE of the row; its share entries go with it
  (\<open>diagram_id ... ON DELETE CASCADE\<close>).
\<close>

definition Diagram_destroy :: "db \<Rightarrow> Diagram \<Rightarrow> db" where
  "Diagram_destroy s diagram =
     s\<lparr>diagrams := filter (\<lambda>r. diagId r \<noteq> diagId diagram) (diagrams s),
       diagram_shares := filter (\<lambda>e. diagramId e \<noteq> diagId diagram) (diagram_shares s)\<rparr>"

text \<open>
  \<open>DiagramShare.create(values)\<close>: INSERT into \<open>diagram_shares\<close>, under the unique index
  \<open>unique_diagram_user\<close> on \<open>(diagram_id, shared_with_user_id)\<close>, the primary key and the
  three foreign keys of models/DiagramShare.ts.
\<close>

definition share_ok :: "db \<Rightarrow> DiagramShare \<Rightarrow> bool" where
  "share_ok s e \<longleftrightarrow>
     findShare (diagram_shares s) (diagramId e) (sharedWithUserId e) = None \<and>
     find (\<lambda>x. shareId x = shareId e) (diagram_shares s) = None \<and>
     findByPk (diagrams s) (diagramId e) \<noteq> None \<and>
     sharedWithUserId e \<in> set (users s) \<and> sharedByUserId e \<in> set (users s)"

definition DiagramShare_create :: "db \<Rightarrow> DiagramShare \<Rightarrow> db option" where
  "DiagramShare_create s e =
     (if share_ok s e then Some (s\<lparr>diagram_shares := diagram_shares s @ [e]\<rparr>) else None)"

text \<open>\<open>share.update({ permissionLevel })\<close>: UPDATE of the entry with its key.\<close>

definition DiagramShare_update :: "db \<Rightarrow> DiagramShare \<Rightarrow> PermissionLevel \<Rightarrow> DiagramShare \<times> db" where
  "DiagramShare_update s share l =
     (let e = share\<lparr>permissionLevel := l\<rparr> in
      (e, s\<lparr>diagram_shares :=
              map (\<lambda>x. if shareId x = shareId e then e else x) (diagram_shares s)\<rparr>))"

text \<open>
  \<open>DiagramShare.destroy({ where: { diagramId, sharedWithUserId } })\<close>: the number of rows
  deleted, and the table without them.
\<close>

definition DiagramShare_destroy :: "db \<Rightarrow> uuid \<Rightarrow> uuid \<Rightarrow> nat \<times> db" where
  "DiagramShare_destroy s i u =
     (length (filter (\<lambda>e. diagramId e = i \<and> sharedWithUserId e = u) (diagram_shares s)),
      s\<lparr>diagram_shares :=
          filter (\<lambda>e. \<not> (diagramId e = i \<and> sharedWithUserId e = u)) (diagram_shares s)\<rparr>)"

text \<open>\<open>DiagramShare.count({ where: { diagramId } })\<close>.\<close>

definition DiagramShare_count :: "db \<Rightarrow> uuid \<Rightarrow> nat" where
  "DiagramShare_count s i = length (filter (\<lambda>e. diagramId e = i) (diagram_shares s))"

section \<open>The controller\<close>

text \<open>
  controllers/diagram-controller.ts. Every handler takes the database, the identity
  \<open>req.userId\<close> attached by the authentication middleware and its parameters, and returns
  the response with the database it leaves. \<open>!req.userId\<close> holds when the identity is
  undefined or the empty string. Handlers that read the clock or generate a key take the
  current time \<open>now\<close> and the generated UUID \<open>fresh\<close>. A \<open>catch\<close> block answers 500; the text
  of the exception it adds is left out.
\<close>

definition unauthorized :: "db \<Rightarrow> response \<times> db" where
  "unauthorized s = ((401, Error ''Authentication required''), s)"

text \<open>
  \<open>getAll\<close>: own diagrams and diagrams shared with the user, each of the latter with the
  permission level of its entry. The ORDER BY of the first query is not modelled.
\<close>

definition getAll :: "db \<Rightarrow> uuid option \<Rightarrow> response \<times> db" where
  "getAll s req_userId =
     (case req_userId of None \<Rightarrow> unauthorized s | Some u \<Rightarrow>
      (if u = [] then unauthorized s else
      let ownDiagrams = filter (\<lambda>d. userId d = u) (diagrams s);
          sharedDiagramIds = filter (\<lambda>e. sharedWithUserId e = u) (diagram_shares s);
          sharedDiagrams =
            filter (\<lambda>d. diagId d \<in> set (map diagramId sharedDiagramIds)) (diagrams s)
      in ((200, DiagramLists ownDiagrams
             (map (\<lambda>d. (d, map_option permissionLevel
                            (find (\<lambda>e. diagramId e = diagId d) sharedDiagramIds)))
                sharedDiagrams)), s)))"

definition getById :: "db \<Rightarrow> uuid option \<Rightarrow> uuid \<Rightarrow> response \<times> db" where
  "getById s req_userId i =
     (case req_userId of None \<Rightarrow> unauthorized s | Some u \<Rightarrow>
      (if u = [] then unauthorized s else
      case findByPk (diagrams s) i of
        None \<Rightarrow> ((404, Error ''Diagram not found''), s)
      | Some diagram \<Rightarrow>
          let shares = filter (\<lambda>e. diagramId e = i \<and> sharedWithUserId e = u) (diagram_shares s);
              isOwner = (userId diagram = u);
              hasSharedAccess = (shares \<noteq> [])
          in if \<not> isOwner \<and> \<not> hasSharedAccess then ((403, Error ''Access denied''), s)
             else ((200, DiagramWithShares diagram shares), s)))"

definition create :: "db \<Rightarrow> time \<Rightarrow> uuid \<Rightarrow> uuid option \<Rightarrow> attr list \<Rightarrow> response \<times> db" where
  "create s now fresh req_userId body =
     (case req_userId of None \<Rightarrow> unauthorized s | Some u \<Rightarrow>
      (if u = [] then unauthorized s else
      let diagramData = body @ [A_userId u, A_lastModifiedBy (Some u), A_version 1] in
      case Diagram_create s now fresh diagramData of
        None \<Rightarrow> ((500, Error ''Failed to create diagram''), s)
      | Some (diagram, s') \<Rightarrow> ((201, DiagramJson diagram), s')))"

text \<open>
  \<open>update\<close>: the body is \<open>{ expectedVersion, ...diagramData }\<close>. The route admits a body
  without \<open>expectedVersion\<close> (\<open>body('expectedVersion').optional().isInt()\<close>), hence the
  option. \<open>expectedVersion && ...\<close> is false for a missing value and for 0. Every exit but
  the last rolls the transaction back; the only statement in it is the UPDATE, whose
  values are \<open>{ ...diagramData, version: diagram.version + 1, lastModifiedBy: req.userId,
  lastModified: new Date() }\<close>.
\<close>

definition update_values :: "time \<Rightarrow> uuid \<Rightarrow> Diagram \<Rightarrow> attr list \<Rightarrow> attr list" where
  "update_values now u diagram diagramData =
     diagramData @
     [A_version (version diagram + 1), A_lastModifiedBy (Some u), A_lastModified now]"

definition update ::
  "db \<Rightarrow> time \<Rightarrow> uuid option \<Rightarrow> uuid \<Rightarrow> int option \<Rightarrow> attr list \<Rightarrow> response \<times> db" where
  "update s now req_userId i expectedVersion diagramData =
     (case req_userId of None \<Rightarrow> unauthorized s | Some u \<Rightarrow>
      (if u = [] then unauthorized s else
      case findByPk (diagrams s) i of
        None \<Rightarrow> ((404, Error ''Diagram not found''), s)
      | Some diagram \<Rightarrow>
          let isOwner = (userId diagram = u);
              hasEditAccess =
                (if \<not> isOwner then findEditShare (diagram_shares s) i u \<noteq> None else False)
          in if \<not> isOwner \<and> \<not> hasEditAccess then ((403, Error ''No edit permission''), s)
             else if (expectedVersion \<noteq> None \<and> expectedVersion \<noteq> Some 0) \<and>
                     Some (version diagram) \<noteq> expectedVersion
             then ((409, Conflict ''Diagram was modified by another user''
                           (version diagram) (lastModified diagram) (lastModifiedBy diagram)
                           diagram), s)
             else
               (case Diagram_update s diagram (update_values now u diagram diagramData) of
                  None \<Rightarrow> ((500, Error ''Failed to update diagram''), s)
                | Some (d, s') \<Rightarrow> ((200, DiagramJson d), s'))))"

definition delete :: "db \<Rightarrow> uuid option \<Rightarrow> uuid \<Rightarrow> response \<times> db" where
  "delete s req_userId i =
     (case req_userId of None \<Rightarrow> unauthorized s | Some u \<Rightarrow>
      (if u = [] then unauthorized s else
      case findOwned (diagrams s) i u of
        None \<Rightarrow> ((404, Error ''Diagram not found or access denied''), s)
      | Some diagram \<Rightarrow>
          ((200, Message ''Diagram deleted successfully''), Diagram_destroy s diagram)))"

text \<open>
  \<open>getVersion\<close> selects the attributes \<open>id\<close>, \<open>version\<close>, \<open>lastModified\<close> and
  \<open>lastModifiedBy\<close> (the user name of the last modifier, joined from \<open>users\<close>, is left out).
\<close>

definition getVersion :: "db \<Rightarrow> uuid option \<Rightarrow> uuid \<Rightarrow> response \<times> db" where
  "getVersion s req_userId i =
     (case req_userId of None \<Rightarrow> unauthorized s | Some u \<Rightarrow>
      (if u = [] then unauthorized s else
      case findByPk (diagrams s) i of
        None \<Rightarrow> ((404, Error ''Diagram not found''), s)
      | Some diagram \<Rightarrow>
          ((200, VersionInfo (diagId diagram) (version diagram) (lastModified diagram)
                   (lastModifiedBy diagram)), s)))"

text \<open>
  \<open>duplicate\<close>: all attributes of the original but \<open>id\<close> (so that a fresh key is
  generated), with \<open>name\<close>, \<open>userId\<close>, \<open>lastModifiedBy\<close>, \<open>version\<close>, \<open>gistId\<close> and
  \<open>loadedFromGistId\<close> overridden.
\<close>

definition toJSON :: "Diagram \<Rightarrow> attr list" where
  "toJSON d =
     [A_id (diagId d), A_userId (userId d), A_name (name d), A_database (database d),
      A_tables (tables d), A_references (references d), A_notes (notes' d),
      A_areas (areas d), A_todos (todos d), A_enums (enums d), A_types (types d),
      A_pan (pan d), A_zoom (zoom d), A_gistId (gistId d),
      A_loadedFromGistId (loadedFromGistId d), A_lastModified (lastModified d),
      A_lastModifiedBy (lastModifiedBy d), A_version (version d), A_isShared (isShared d)]"

definition duplicate :: "db \<Rightarrow> time \<Rightarrow> uuid \<Rightarrow> uuid option \<Rightarrow> uuid \<Rightarrow> response \<times> db" where
  "duplicate s now fresh req_userId i =
     (case req_userId of None \<Rightarrow> unauthorized s | Some u \<Rightarrow>
      (if u = [] then unauthorized s else
      case findByPk (diagrams s) i of
        None \<Rightarrow> ((404, Error ''Diagram not found''), s)
      | Some originalDiagram \<Rightarrow>
          let duplicateData = tl (toJSON originalDiagram) in
          (case Diagram_create s now fresh
                  (duplicateData @
                   [A_name (name originalDiagram @ '' (Copy)''), A_userId u,
                    A_lastModifiedBy (Some u), A_version 1, A_gistId None,
                    A_loadedFromGistId (gistId originalDiagram)]) of
             None \<Rightarrow> ((500, Error ''Failed to duplicate diagram''), s)
           | Some (newDiagram, s') \<Rightarrow> ((201, DiagramJson newDiagram), s'))))"

text \<open>\<open>sync\<close>: the route requires \<open>expectedVersion\<close> to be an integer.\<close>

definition sync :: "db \<Rightarrow> uuid option \<Rightarrow> uuid \<Rightarrow> int \<Rightarrow> response \<times> db" where
  "sync s req_userId i expectedVersion =
     (case req_userId of None \<Rightarrow> unauthorized s | Some u \<Rightarrow>
      (if u = [] then unauthorized s else
      case findByPk (diagrams s) i of
        None \<Rightarrow> ((404, Error ''Diagram not found''), s)
      | Some diagram \<Rightarrow>
          if version diagram \<noteq> expectedVersion
          then ((409, SyncConflict ''Diagram has been updated'' diagram), s)
          else ((200, InSync (version diagram)), s)))"

text \<open>
  \<open>shareDiagram\<close>: the entry is inserted first, then the flag \<open>isShared\<close> of the diagram
  is set; the two statements are not in one transaction.
\<close>

definition shareDiagram ::
  "db \<Rightarrow> uuid \<Rightarrow> uuid option \<Rightarrow> uuid \<Rightarrow> uuid \<Rightarrow> PermissionLevel \<Rightarrow> response \<times> db" where
  "shareDiagram s fresh req_userId i sharedWith level =
     (case req_userId of None \<Rightarrow> unauthorized s | Some u \<Rightarrow>
      (if u = [] then unauthorized s else
      case findOwned (diagrams s) i u of
        None \<Rightarrow> ((404, Error ''Diagram not found or access denied''), s)
      | Some diagram \<Rightarrow>
          if sharedWith \<notin> set (users s) then ((404, Error ''User not found''), s)
          else if findShare (diagram_shares s) i sharedWith \<noteq> None
          then ((409, Error ''Diagram already shared with this user''), s)
          else
            let share = \<lparr>shareId = fresh, diagramId = i, sharedWithUserId = sharedWith,
                         sharedByUserId = u, permissionLevel = level\<rparr> in
            (case DiagramShare_create s share of
               None \<Rightarrow> ((500, Error ''Failed to share diagram''), s)
             | Some s1 \<Rightarrow>
                 (case Diagram_update s1 diagram [A_isShared True] of
                    None \<Rightarrow> ((500, Error ''Failed to share diagram''), s1)
                  | Some (d, s2) \<Rightarrow>
                      ((201, ShareJson ''Diagram shared successfully'' share), s2)))))"

definition getShares :: "db \<Rightarrow> uuid option \<Rightarrow> uuid \<Rightarrow> response \<times> db" where
  "getShares s req_userId i =
     (case req_userId of None \<Rightarrow> unauthorized s | Some u \<Rightarrow>
      (if u = [] then unauthorized s else
      case findOwned (diagrams s) i u of
        None \<Rightarrow> ((404, Error ''Diagram not found or access denied''), s)
      | Some diagram \<Rightarrow>
          ((200, SharesJson (filter (\<lambda>e. diagramId e = i) (diagram_shares s))), s)))"

definition updateShare ::
  "db \<Rightarrow> uuid option \<Rightarrow> uuid \<Rightarrow> uuid \<Rightarrow> PermissionLevel \<Rightarrow> response \<times> db" where
  "updateShare s req_userId i sharedWith level =
     (case req_userId of None \<Rightarrow> unauthorized s | Some u \<Rightarrow>
      (if u = [] then unauthorized s else
      case findOwned (diagrams s) i u of
        None \<Rightarrow> ((404, Error ''Diagram not found or access denied''), s)
      | Some diagram \<Rightarrow>
          (case findShare (diagram_shares s) i sharedWith of
             None \<Rightarrow> ((404, Error ''Share not found''), s)
           | Some share \<Rightarrow>
               (case DiagramShare_update s share level of
                  (e, s') \<Rightarrow> ((200, ShareJson ''Permission updated successfully'' e), s')))))"

definition revokeShare :: "db \<Rightarrow> uuid option \<Rightarrow> uuid \<Rightarrow> uuid \<Rightarrow> response \<times> db" where
  "revokeShare s req_userId i sharedWith =
     (case req_userId of None \<Rightarrow> unauthorized s | Some u \<Rightarrow>
      (if u = [] then unauthorized s else
      case findOwned (diagrams s) i u of
        None \<Rightarrow> ((404, Error ''Diagram not found or access denied''), s)
      | Some diagram \<Rightarrow>
          (case DiagramShare_destroy s i sharedWith of
             (deleted, s1) \<Rightarrow>
               if deleted = 0 then ((404, Error ''Share not found''), s1)
               else if DiagramShare_count s1 i = 0
               then (case Diagram_update s1 diagram [A_isShared False] of
                       None \<Rightarrow> ((500, Error ''Failed to revoke share''), s1)
                     | Some (d, s2) \<Rightarrow> ((200, Message ''Share revoked successfully''), s2))
               else ((200, Message ''Share revoked successfully''), s1))))"

definition getSharedWithMe :: "db \<Rightarrow> uuid option \<Rightarrow> response \<times> db" where
  "getSharedWithMe s req_userId =
     (case req_userId of None \<Rightarrow> unauthorized s | Some u \<Rightarrow>
      (if u = [] then unauthorized s else
      ((200, SharedWithMe
               (map (\<lambda>share. (findByPk (diagrams s) (diagramId share),
                               permissionLevel share, sharedByUserId share))
                  (filter (\<lambda>e. sharedWithUserId e = u) (diagram_shares s)))), s)))"

text \<open>The requests of routes/diagram-route.ts and their dispatch.\<close>

datatype request =
    GetAll
  | GetById uuid
  | Create "attr list"
  | Update uuid "int option" "attr list"
  | Delete uuid
  | Duplicate uuid
  | GetVersion uuid
  | Sync uuid int
  | ShareDiagram uuid uuid PermissionLevel
  | GetShares uuid
  | UpdateShare uuid uuid PermissionLevel
  | RevokeShare uuid uuid
  | GetSharedWithMe

fun handle :: "db \<Rightarrow> time \<Rightarrow> uuid \<Rightarrow> uuid option \<Rightarrow> request \<Rightarrow> response \<times> db" where
  "handle s now fresh u GetAll = getAll s u"
| "handle s now fresh u (GetById i) = getById s u i"
| "handle s now fresh u (Create body) = create s now fresh u body"
| "handle s now fresh u (Update i ev body) = update s now u i ev body"
| "handle s now fresh u (Delete i) = delete s u i"
| "handle s now fresh u (Duplicate i) = duplicate s now fresh u i"
| "handle s now fresh u (GetVersion i) = getVersion s u i"
| "handle s now fresh u (Sync i ev) = sync s u i ev"
| "handle s now fresh u (ShareDiagram i w l) = shareDiagram s fresh u i w l"
| "handle s now fresh u (GetShares i) = getShares s u i"
| "handle s now fresh u (UpdateShare i w l) = updateShare s u i w l"
| "handle s now fresh u (RevokeShare i w) = revokeShare s u i w"
| "handle s now fresh u GetSharedWithMe = getSharedWithMe s u"

text \<open>A run of the server: requests handled one after the other.\<close>

record event =
  ev_now :: time
  ev_fresh :: uuid
  ev_user :: "uuid option"
  ev_request :: request

definition run :: "db \<Rightarrow> event list \<Rightarrow> db" where
  "run s evs =
     fold (\<lambda>e s. snd (handle s (ev_now e) (ev_fresh e) (ev_user e) (ev_request e))) evs s"

section \<open>The access rules of the specification\<close>

text \<open>
  Section 4.2 of the specification, in its words: the effective permission of an actor on
  a document is \<open>owner\<close> for the creator, else the level of the share entry for
  \<open>(document.id, actorId)\<close>, else \<open>none\<close> (here \<open>None\<close>). The controller has no such
  function; its handlers are compared with this one.
\<close>

definition effectivePermission :: "db \<Rightarrow> uuid \<Rightarrow> Diagram \<Rightarrow> PermissionLevel option" where
  "effectivePermission s actorId document =
     (if actorId = userId document then Some OWNER
      else map_option permissionLevel
             (findShare (diagram_shares s) (diagId document) actorId))"

definition canMutatePayload :: "db \<Rightarrow> uuid \<Rightarrow> Diagram \<Rightarrow> bool" where
  "canMutatePayload s actorId document \<longleftrightarrow>
     effectivePermission s actorId document = Some EDITOR \<or>
     effectivePermission s actorId document = Some OWNER"

section \<open>Invariants of the tables\<close>

text \<open>The primary key of \<open>diagrams\<close>.\<close>

definition pk_diagrams :: "db \<Rightarrow> bool" where
  "pk_diagrams s \<longleftrightarrow> distinct (map diagId (diagrams s))"

text \<open>The primary key of \<open>diagram_shares\<close> and its unique index \<open>unique_diagram_user\<close>.\<close>

definition share_key :: "DiagramShare \<Rightarrow> uuid \<times> uuid" where
  "share_key e = (diagramId e, sharedWithUserId e)"

definition unique_diagram_user :: "db \<Rightarrow> bool" where
  "unique_diagram_user s \<longleftrightarrow> distinct (map share_key (diagram_shares s))"

definition pk_shares :: "db \<Rightarrow> bool" where
  "pk_shares s \<longleftrightarrow> distinct (map shareId (diagram_shares s))"

text \<open>Both, as a property of the table.\<close>

definition shares_inv :: "DiagramShare list \<Rightarrow> bool" where
  "shares_inv shs \<longleftrightarrow> distinct (map shareId shs) \<and> distinct (map share_key shs)"

section \<open>Example databases\<close>

definition doc1 :: Diagram where
  "doc1 = (defaults 10 ''d1'')
     \<lparr>userId := ''alice'', name := ''Shop'', gistId := Some ''g1'',
      loadedFromGistId := Some ''g0'', lastModifiedBy := Some ''alice'', version := 3,
      isShared := True\<rparr>"

definition share_bob :: DiagramShare where
  "share_bob = \<lparr>shareId = ''s1'', diagramId = ''d1'', sharedWithUserId = ''bob'',
                 sharedByUserId = ''alice'', permissionLevel = OWNER\<rparr>"

definition share_dave :: DiagramShare where
  "share_dave = \<lparr>shareId = ''s2'', diagramId = ''d1'', sharedWithUserId = ''dave'',
                  sharedByUserId = ''alice'', permissionLevel = EDITOR\<rparr>"

text \<open>
  Alice created \<open>d1\<close>; Bob holds an owner-level entry on it, Dave an editor-level one,
  Carol none.
\<close>

definition db0 :: db where
  "db0 = \<lparr>users = [''alice'', ''bob'', ''carol'', ''dave''], diagrams = [doc1],
          diagram_shares = [share_bob, share_dave]\<rparr>"

text \<open>The same diagram with Dave's entry as its only one.\<close>

definition db1 :: db where
  "db1 = db0\<lparr>diagram_shares := [share_dave]\<rparr>"

text \<open>A diagram whose name has 249 characters.\<close>

definition doc_long :: Diagram where
  "doc_long = doc1\<lparr>name := replicate 249 CHR ''a''\<rparr>"

definition db_long :: db where
  "db_long = db0\<lparr>diagrams := [doc_long]\<rparr>"

text \<open>Alice's diagram before it is shared with anyone.\<close>

definition db_alone :: db where
  "db_alone = \<lparr>users = [''alice''], diagrams = [doc1\<lparr>isShared := False\<rparr>],
               diagram_shares = []\<rparr>"

text \<open>
  Four requests of Alice: she shares \<open>d1\<close> with Carol, tries to share it with Carol again,
  raises Carol's level and revokes Bob's entry.
\<close>

definition evs0 :: "event list" where
  "evs0 =
     [\<lparr>ev_now = 20, ev_fresh = ''s3'', ev_user = Some ''alice'',
       ev_request = ShareDiagram ''d1'' ''carol'' VIEWER\<rparr>,
      \<lparr>ev_now = 21, ev_fresh = ''s4'', ev_user = Some ''alice'',
       ev_request = ShareDiagram ''d1'' ''carol'' EDITOR\<rparr>,
      \<lparr>ev_now = 22, ev_fresh = ''s5'', ev_user = Some ''alice'',
       ev_request = UpdateShare ''d1'' ''carol'' EDITOR\<rparr>,
      \<lparr>ev_now = 23, ev_fresh = ''s6'', ev_user = Some ''alice'',
       ev_request = RevokeShare ''d1'' ''bob''\<rparr>]"

lemmas example_defs =
  doc1_def share_bob_def share_dave_def db0_def db1_def doc_long_def db_long_def
  db_alone_def defaults_def

lemmas table_defs =
  findByPk_def findOwned_def findShare_def findEditShare_def row_ok_def varchar_ok_def
  not_null_def float_ok_def
  user_ref_ok_def share_ok_def Diagram_create_def Diagram_update_def Diagram_destroy_def
  DiagramShare_create_def DiagramShare_update_def DiagramShare_destroy_def
  DiagramShare_count_def unauthorized_def update_values_def

section \<open>Lemmas about the tables\<close>

lemma diagId_set_attr [simp]: "diagId (set_attr a d) = diagId d"
  by (cases a) simp_all

lemma diagId_fold_set_attr [simp]: "diagId (fold set_attr vals d) = diagId d"
  by (induction vals arbitrary: d) simp_all

lemma findByPk_diagId: "findByPk ds i = Some d \<Longrightarrow> diagId d = i"
  by (auto simp: findByPk_def find_Some_iff)

lemma findByPk_mem: "findByPk ds i = Some d \<Longrightarrow> d \<in> set ds"
  by (auto simp: findByPk_def find_Some_iff)

lemma findByPk_replace:
  "findByPk ds i = Some d \<Longrightarrow> diagId d' = i \<Longrightarrow>
   findByPk (map (\<lambda>r. if diagId r = diagId d' then d' else r) ds) i = Some d'"
  by (induction ds) (auto simp: findByPk_def split: if_splits)


lemma find_key_absent: "k \<notin> f ` set xs \<Longrightarrow> find (\<lambda>x. f x = k \<and> P x) xs = None"
  by (induction xs) auto

text \<open>Under the primary key, the query by key and owner finds the row of the key or nothing.\<close>

lemma findOwned_iff:
  assumes "distinct (map diagId ds)" "findByPk ds i = Some d"
  shows "findOwned ds i u = (if userId d = u then Some d else None)"
  using assms
proof (induction ds)
  case Nil
  then show ?case by (simp add: findByPk_def)
next
  case (Cons a ds)
  show ?case
  proof (cases "diagId a = i")
    case True
    with Cons.prems have "a = d" "i \<notin> diagId ` set ds"
      by (auto simp: findByPk_def)
    then show ?thesis
      using True by (simp add: findOwned_def find_key_absent)
  next
    case False
    with Cons show ?thesis by (simp add: findByPk_def findOwned_def)
  qed
qed

section \<open>The update protocol\<close>

text \<open>
  Claim C7. When \<open>update\<close> answers 409 (conflict), the cause is an expected version that
  differs from the stored one, the response carries the stored row as it is (its version,
  \<open>lastModified\<close>, \<open>lastModifiedBy\<close> and the whole row as \<open>data\<close>), and the database is
  left exactly as it was.
\<close>

theorem update_conflict_carries_current_row:
  assumes "fst (fst (update s now u i ev body)) = 409"
  shows "\<exists>d. findByPk (diagrams s) i = Some d \<and> ev \<noteq> Some (version d) \<and>
     update s now u i ev body =
       ((409, Conflict ''Diagram was modified by another user''
                (version d) (lastModified d) (lastModifiedBy d) d), s)"
  using assms
  by (auto simp: update_def unauthorized_def Let_def Diagram_update_def
           split: option.splits if_splits prod.splits)

theorem update_conflict_carries_current_row_witness:
  "fst (fst (update db0 20 (Some ''alice'') ''d1'' (Some 2) [A_name ''x''])) = 409 \<and>
   (\<exists>d. findByPk (diagrams db0) ''d1'' = Some d \<and> Some 2 \<noteq> Some (version d) \<and>
     update db0 20 (Some ''alice'') ''d1'' (Some 2) [A_name ''x''] =
       ((409, Conflict ''Diagram was modified by another user''
                (version d) (lastModified d) (lastModifiedBy d) d), db0))"
proof -
  have h: "fst (fst (update db0 20 (Some ''alice'') ''d1'' (Some 2) [A_name ''x''])) = 409"
    by (simp add: update_def example_defs table_defs)
  from update_conflict_carries_current_row [OF h] h show ?thesis by blast
qed

lemma fold_update_values:
  "fold set_attr (update_values now u d body) d =
     (fold set_attr body d)
       \<lparr>version := version d + 1, lastModifiedBy := Some u, lastModified := now\<rparr>"
  by (simp add: update_values_def)

lemma Diagram_update_Some:
  "Diagram_update s d vals = Some (d', s') \<Longrightarrow>
     d' = fold set_attr vals d \<and> row_ok s d' \<and>
     s' = s\<lparr>diagrams := map (\<lambda>r. if diagId r = diagId d then d' else r) (diagrams s)\<rparr>"
  by (auto simp: Diagram_update_def Let_def split: if_splits)

lemma Diagram_update_findByPk:
  "Diagram_update s d vals = Some (d', s') \<Longrightarrow> findByPk (diagrams s) i = Some d \<Longrightarrow>
     findByPk (diagrams s') i = Some d'"
  using findByPk_replace [of "diagrams s" i d "fold set_attr vals d"]
  by (auto simp: Diagram_update_def Let_def findByPk_diagId split: if_splits)

text \<open>
  Claim C1, as the code has it. The request of an actor who passes the edit check on an
  existing diagram may carry no \<open>expectedVersion\<close> at all (the route declares it
  optional). For a request whose \<open>expectedVersion\<close> is absent or a number other than 0:
  when it is present and differs from the stored version, the answer is 409 and nothing is
  written; when it is absent or equal to the stored version, the row is written with the
  version advanced by one (provided the database accepts the row); and a write, or the
  answer 200, occurs only when it is absent or equal to the stored version.
\<close>

theorem update_compares_expected_version:
  assumes "u \<noteq> []" and "findByPk (diagrams s) i = Some d"
    and "userId d = u \<or> findEditShare (diagram_shares s) i u \<noteq> None"
    and "ev \<noteq> Some 0"
  shows "(ev \<noteq> None \<and> ev \<noteq> Some (version d) \<longrightarrow>
            update s now (Some u) i ev body =
              ((409, Conflict ''Diagram was modified by another user''
                       (version d) (lastModified d) (lastModifiedBy d) d), s)) \<and>
         ((ev = None \<or> ev = Some (version d)) \<and>
            row_ok s (fold set_attr (update_values now u d body) d) \<longrightarrow>
            fst (update s now (Some u) i ev body) =
              (200, DiagramJson (fold set_attr (update_values now u d body) d)) \<and>
            findByPk (diagrams (snd (update s now (Some u) i ev body))) i =
              Some (fold set_attr (update_values now u d body) d) \<and>
            version (fold set_attr (update_values now u d body) d) = version d + 1) \<and>
         (fst (fst (update s now (Some u) i ev body)) = 200 \<longrightarrow>
            ev = None \<or> ev = Some (version d)) \<and>
         (snd (update s now (Some u) i ev body) \<noteq> s \<longrightarrow>
            ev = None \<or> ev = Some (version d))"
proof -
  let ?d' = "fold set_attr (update_values now u d body) d"
  have conflict: "update s now (Some u) i ev body =
      ((409, Conflict ''Diagram was modified by another user''
               (version d) (lastModified d) (lastModifiedBy d) d), s)"
    if "ev \<noteq> None" and "ev \<noteq> Some (version d)"
    using that assms by (auto simp: update_def Let_def)
  have commit: "fst (update s now (Some u) i ev body) = (200, DiagramJson ?d') \<and>
      findByPk (diagrams (snd (update s now (Some u) i ev body))) i = Some ?d' \<and>
      version ?d' = version d + 1"
    if eq: "ev = None \<or> ev = Some (version d)" and ok: "row_ok s ?d'"
  proof -
    obtain s' where upd: "Diagram_update s d (update_values now u d body) = Some (?d', s')"
      using ok by (simp add: Diagram_update_def Let_def)
    have "update s now (Some u) i ev body = ((200, DiagramJson ?d'), s')"
      using eq assms upd by (auto simp: update_def Let_def)
    moreover have "findByPk (diagrams s') i = Some ?d'"
      using Diagram_update_findByPk [OF upd assms(2)] .
    moreover have "version ?d' = version d + 1"
      by (simp add: fold_update_values)
    ultimately show ?thesis by simp
  qed
  have only: "ev = None \<or> ev = Some (version d)"
    if "fst (fst (update s now (Some u) i ev body)) = 200 \<or>
        snd (update s now (Some u) i ev body) \<noteq> s"
    using that conflict by (cases "ev = None \<or> ev = Some (version d)") auto
  show ?thesis using conflict commit only by blast
qed

theorem update_compares_expected_version_witness:
  "update db0 20 (Some ''dave'') ''d1'' (Some 2) [A_name ''x''] =
     ((409, Conflict ''Diagram was modified by another user''
              (version doc1) (lastModified doc1) (lastModifiedBy doc1) doc1), db0) \<and>
   findByPk (diagrams (snd (update db0 20 (Some ''dave'') ''d1'' (Some 3) [A_name ''x''])))
       ''d1'' =
     Some (fold set_attr (update_values 20 ''dave'' doc1 [A_name ''x'']) doc1)"
proof -
  have h1: "''dave'' \<noteq> []" by simp
  have h2: "findByPk (diagrams db0) ''d1'' = Some doc1"
    by (simp add: example_defs table_defs)
  have h3: "userId doc1 = ''dave'' \<or>
            findEditShare (diagram_shares db0) ''d1'' ''dave'' \<noteq> None"
    by (simp add: example_defs table_defs)
  have h4: "Some (2::int) \<noteq> Some 0" "Some (3::int) \<noteq> Some 0" by simp_all
  have h5: "Some (2::int) \<noteq> None" "Some 2 \<noteq> Some (version doc1)"
    "Some 3 = Some (version doc1)"
    by (simp_all add: example_defs)
  have h6: "row_ok db0 (fold set_attr (update_values 20 ''dave'' doc1 [A_name ''x'']) doc1)"
    by (simp add: example_defs table_defs)
  note a = update_compares_expected_version [OF h1 h2 h3 h4(1), of 20 "[A_name ''x'']"]
  note b = update_compares_expected_version [OF h1 h2 h3 h4(2), of 20 "[A_name ''x'']"]
  from a h5(1,2) have c1: "update db0 20 (Some ''dave'') ''d1'' (Some 2) [A_name ''x''] =
     ((409, Conflict ''Diagram was modified by another user''
              (version doc1) (lastModified doc1) (lastModifiedBy doc1) doc1), db0)"
    by blast
  from b h5(3) h6 have c2:
    "findByPk (diagrams (snd (update db0 20 (Some ''dave'') ''d1'' (Some 3) [A_name ''x''])))
         ''d1'' =
       Some (fold set_attr (update_values 20 ''dave'' doc1 [A_name ''x'']) doc1)"
    by blast
  from c1 c2 show ?thesis by (rule conjI)
qed

text \<open>
  The claim as it was stated fails: Alice's request carries no \<open>expectedVersion\<close>, which
  is therefore not equal to the stored version 3, and the payload is written and the
  version advanced to 4.
\<close>

theorem update_without_expected_version_writes:
  "findByPk (diagrams db0) ''d1'' = Some doc1 \<and> version doc1 = 3 \<and>
   update db0 20 (Some ''alice'') ''d1'' None [A_name ''x''] =
     ((200, DiagramJson (doc1\<lparr>name := ''x'', lastModified := 20, version := 4\<rparr>)),
      db0\<lparr>diagrams := [doc1\<lparr>name := ''x'', lastModified := 20, version := 4\<rparr>]\<rparr>)"
  by (simp add: update_def example_defs table_defs Let_def)

lemma find_share_absent:
  "(i, u) \<notin> share_key ` set shs \<Longrightarrow>
     find (\<lambda>e. diagramId e = i \<and> sharedWithUserId e = u \<and> P e) shs = None"
  by (induction shs) (auto simp: share_key_def)

lemma findEditShare_unique:
  assumes "distinct (map share_key shs)"
  shows "(findEditShare shs i u \<noteq> None) =
         (\<exists>e. findShare shs i u = Some e \<and> (permissionLevel e = EDITOR \<or> permissionLevel e = OWNER))"
  using assms
proof (induction shs)
  case Nil
  then show ?case by (simp add: findEditShare_def findShare_def)
next
  case (Cons a shs)
  show ?case
  proof (cases "diagramId a = i \<and> sharedWithUserId a = u")
    case True
    with Cons.prems have "(i, u) \<notin> share_key ` set shs"
      by (auto simp: share_key_def)
    then have "find (\<lambda>e. diagramId e = i \<and> sharedWithUserId e = u \<and>
                 permissionLevel e \<in> set [EDITOR, OWNER]) shs = None"
      by (rule find_share_absent)
    with True show ?thesis
      by (auto simp: findEditShare_def findShare_def)
  next
    case False
    with Cons show ?thesis
      by (auto simp: findEditShare_def findShare_def)
  qed
qed

lemma update_403_iff:
  assumes "u \<noteq> []" and "findByPk (diagrams s) i = Some d"
  shows "(fst (fst (update s now (Some u) i ev body)) = 403) =
         (userId d \<noteq> u \<and> findEditShare (diagram_shares s) i u = None)"
    and "fst (fst (update s now (Some u) i ev body)) = 403 \<Longrightarrow>
         update s now (Some u) i ev body = ((403, Error ''No edit permission''), s)"
  using assms
  by (auto simp: update_def Let_def split: option.splits prod.splits if_splits)

lemma canMutatePayload_iff:
  assumes "unique_diagram_user s" and "diagId d = i"
  shows "canMutatePayload s u d = (userId d = u \<or> findEditShare (diagram_shares s) i u \<noteq> None)"
  using findEditShare_unique [of "diagram_shares s" i u] assms
  by (auto simp: canMutatePayload_def effectivePermission_def unique_diagram_user_def)

text \<open>
  Claim C6. On an existing diagram, \<open>update\<close> by an authenticated actor answers 403
  exactly when the actor's effective permission is neither \<open>editor\<close> nor \<open>owner\<close>, that
  is \<open>none\<close> or \<open>viewer\<close>; the database is then unchanged. The creator, and a grantee with
  an editor-level or owner-level entry, never get 403.
\<close>

theorem update_forbidden_iff_cannot_mutate:
  assumes "u \<noteq> []" and "findByPk (diagrams s) i = Some d" and "unique_diagram_user s"
  shows "((fst (fst (update s now (Some u) i ev body)) = 403) = (\<not> canMutatePayload s u d)) \<and>
         (\<not> canMutatePayload s u d) =
           (effectivePermission s u d = None \<or> effectivePermission s u d = Some VIEWER) \<and>
         (\<not> canMutatePayload s u d \<longrightarrow>
            update s now (Some u) i ev body = ((403, Error ''No edit permission''), s)) \<and>
         (userId d = u \<longrightarrow> fst (fst (update s now (Some u) i ev body)) \<noteq> 403) \<and>
         ((\<exists>e \<in> set (diagram_shares s). diagramId e = i \<and> sharedWithUserId e = u \<and>
              (permissionLevel e = EDITOR \<or> permissionLevel e = OWNER)) \<longrightarrow>
            fst (fst (update s now (Some u) i ev body)) \<noteq> 403)"
proof -
  have id: "diagId d = i" using assms(2) by (rule findByPk_diagId)
  note cm = canMutatePayload_iff [OF assms(3) id, of u]
  note fb = update_403_iff [OF assms(1,2), of now ev body]
  have a: "(fst (fst (update s now (Some u) i ev body)) = 403) = (\<not> canMutatePayload s u d)"
    using cm fb(1) by simp
  have b: "(\<not> canMutatePayload s u d) =
           (effectivePermission s u d = None \<or> effectivePermission s u d = Some VIEWER)"
    by (cases "effectivePermission s u d"; cases "the (effectivePermission s u d)")
       (auto simp: canMutatePayload_def)
  have c: "update s now (Some u) i ev body = ((403, Error ''No edit permission''), s)"
    if "\<not> canMutatePayload s u d"
    using that a fb(2) by simp
  have d: "fst (fst (update s now (Some u) i ev body)) \<noteq> 403" if "userId d = u"
    using that fb(1) by simp
  have e: "fst (fst (update s now (Some u) i ev body)) \<noteq> 403"
    if "\<exists>e \<in> set (diagram_shares s). diagramId e = i \<and> sharedWithUserId e = u \<and>
              (permissionLevel e = EDITOR \<or> permissionLevel e = OWNER)"
  proof -
    from that have "findEditShare (diagram_shares s) i u \<noteq> None"
      by (auto simp: findEditShare_def find_None_iff)
    then show ?thesis using fb(1) by simp
  qed
  show ?thesis using a b c d e by blast
qed

theorem update_forbidden_iff_cannot_mutate_witness:
  "\<not> canMutatePayload db0 ''carol'' doc1 \<and>
   fst (fst (update db0 20 (Some ''carol'') ''d1'' (Some 3) [A_name ''x''])) = 403 \<and>
   canMutatePayload db0 ''dave'' doc1 \<and>
   fst (fst (update db0 20 (Some ''dave'') ''d1'' (Some 3) [A_name ''x''])) \<noteq> 403"
proof -
  have h1: "''carol'' \<noteq> []" "''dave'' \<noteq> []" by simp_all
  have h2: "findByPk (diagrams db0) ''d1'' = Some doc1"
    by (simp add: example_defs table_defs)
  have h3: "unique_diagram_user db0"
    by (simp add: unique_diagram_user_def share_key_def example_defs)
  have c: "\<not> canMutatePayload db0 ''carol'' doc1"
    by (simp add: canMutatePayload_def effectivePermission_def example_defs table_defs)
  have d: "canMutatePayload db0 ''dave'' doc1"
    by (simp add: canMutatePayload_def effectivePermission_def example_defs table_defs)
  note a = update_forbidden_iff_cannot_mutate [OF h1(1) h2 h3, of 20 "Some 3" "[A_name ''x'']"]
  note b = update_forbidden_iff_cannot_mutate [OF h1(2) h2 h3, of 20 "Some 3" "[A_name ''x'']"]
  from a c have c1: "fst (fst (update db0 20 (Some ''carol'') ''d1'' (Some 3) [A_name ''x''])) = 403"
    by blast
  from b d have c2: "fst (fst (update db0 20 (Some ''dave'') ''d1'' (Some 3) [A_name ''x''])) \<noteq> 403"
    by blast
  from c c1 d c2 show ?thesis by blast
qed

text \<open>
  Claim C5 does not hold of the code. \<open>update\<close> spreads the request body into the values it
  writes and overrides \<open>version\<close>, \<open>lastModifiedBy\<close> and \<open>lastModified\<close> only, so a body
  with the key \<open>userId\<close> replaces the creator of the diagram: here Dave, who holds an
  editor-level entry on Alice's diagram, makes himself its creator.
\<close>

theorem update_overwrites_userId:
  "userId doc1 = ''alice'' \<and> findByPk (diagrams db0) ''d1'' = Some doc1 \<and>
   update db0 20 (Some ''dave'') ''d1'' (Some 3) [A_userId ''dave''] =
     ((200, DiagramJson (doc1\<lparr>userId := ''dave'', lastModified := 20,
                              lastModifiedBy := Some ''dave'', version := 4\<rparr>)),
      db0\<lparr>diagrams := [doc1\<lparr>userId := ''dave'', lastModified := 20,
                              lastModifiedBy := Some ''dave'', version := 4\<rparr>]\<rparr>)"
  by (simp add: update_def example_defs table_defs Let_def)



lemma findByPk_filter:
  "findByPk (filter (\<lambda>r. diagId r \<noteq> k) ds) j = (if j = k then None else findByPk ds j)"
  by (induction ds) (auto simp: findByPk_def)










section \<open>Versions\<close>








section \<open>Who may manage shares and delete\<close>

lemma findOwned_None: "findByPk ds i = None \<Longrightarrow> findOwned ds i u = None"
  by (auto simp: findByPk_def findOwned_def find_None_iff)

lemma shareDiagram_denied:
  "findOwned (diagrams s) i u = None \<Longrightarrow> u \<noteq> [] \<Longrightarrow>
   shareDiagram s fresh (Some u) i w l = ((404, Error ''Diagram not found or access denied''), s)"
  by (simp add: shareDiagram_def)

lemma shareDiagram_granted:
  "findOwned (diagrams s) i u = Some d \<Longrightarrow> u \<noteq> [] \<Longrightarrow>
   fst (shareDiagram s fresh (Some u) i w l) \<noteq> (404, Error ''Diagram not found or access denied'')"
  by (simp add: shareDiagram_def Let_def split: option.splits prod.splits)

lemma updateShare_denied:
  "findOwned (diagrams s) i u = None \<Longrightarrow> u \<noteq> [] \<Longrightarrow>
   updateShare s (Some u) i w l = ((404, Error ''Diagram not found or access denied''), s)"
  by (simp add: updateShare_def)

lemma updateShare_granted:
  "findOwned (diagrams s) i u = Some d \<Longrightarrow> u \<noteq> [] \<Longrightarrow>
   fst (updateShare s (Some u) i w l) \<noteq> (404, Error ''Diagram not found or access denied'')"
  by (simp add: updateShare_def Let_def split: option.splits prod.splits)

lemma revokeShare_denied:
  "findOwned (diagrams s) i u = None \<Longrightarrow> u \<noteq> [] \<Longrightarrow>
   revokeShare s (Some u) i w = ((404, Error ''Diagram not found or access denied''), s)"
  by (simp add: revokeShare_def)

lemma revokeShare_granted:
  "findOwned (diagrams s) i u = Some d \<Longrightarrow> u \<noteq> [] \<Longrightarrow>
   fst (revokeShare s (Some u) i w) \<noteq> (404, Error ''Diagram not found or access denied'')"
  by (simp add: revokeShare_def Let_def split: option.splits prod.splits)

lemma share_management_never_403:
  "fst (fst (shareDiagram s fresh uo i w l)) \<noteq> 403"
  "fst (fst (updateShare s uo i w l)) \<noteq> 403"
  "fst (fst (revokeShare s uo i w)) \<noteq> 403"
  by (simp_all add: shareDiagram_def updateShare_def revokeShare_def unauthorized_def Let_def
        split: option.splits prod.splits)

text \<open>
  Claim C2, as the code has it. \<open>shareDiagram\<close>, \<open>updateShare\<close> and \<open>revokeShare\<close> look
  the diagram up by key and creator (\<open>where: { id, userId: req.userId }\<close>, "Verify
  ownership"). On an existing diagram they refuse a requester exactly when the requester
  is not its creator, whatever share entry the requester holds; the refusal is the answer
  404 "Diagram not found or access denied", the same as for a diagram that does not
  exist, it leaves the database unchanged, and none of the three ever answers 403.
\<close>

theorem share_management_only_for_creator:
  assumes "u \<noteq> []" and "findByPk (diagrams s) i = Some d" and "pk_diagrams s"
  shows "((fst (shareDiagram s fresh (Some u) i w l) =
            (404, Error ''Diagram not found or access denied'')) = (u \<noteq> userId d)) \<and>
         ((fst (updateShare s (Some u) i w l) =
            (404, Error ''Diagram not found or access denied'')) = (u \<noteq> userId d)) \<and>
         ((fst (revokeShare s (Some u) i w) =
            (404, Error ''Diagram not found or access denied'')) = (u \<noteq> userId d)) \<and>
         (u \<noteq> userId d \<longrightarrow>
            snd (shareDiagram s fresh (Some u) i w l) = s \<and>
            snd (updateShare s (Some u) i w l) = s \<and>
            snd (revokeShare s (Some u) i w) = s) \<and>
         fst (fst (shareDiagram s fresh (Some u) i w l)) \<noteq> 403 \<and>
         fst (fst (updateShare s (Some u) i w l)) \<noteq> 403 \<and>
         fst (fst (revokeShare s (Some u) i w)) \<noteq> 403"
proof (cases "userId d = u")
  case True
  with findOwned_iff [OF assms(3) [unfolded pk_diagrams_def] assms(2), of u]
  have own: "findOwned (diagrams s) i u = Some d" by simp
  show ?thesis
    using True shareDiagram_granted [OF own assms(1)] updateShare_granted [OF own assms(1)]
      revokeShare_granted [OF own assms(1)] share_management_never_403
    by auto
next
  case False
  with findOwned_iff [OF assms(3) [unfolded pk_diagrams_def] assms(2), of u]
  have own: "findOwned (diagrams s) i u = None" by simp
  show ?thesis
    using False shareDiagram_denied [OF own assms(1)] updateShare_denied [OF own assms(1)]
      revokeShare_denied [OF own assms(1)]
    by auto
qed

text \<open>
  The claim as it was stated fails. Bob holds an owner-level entry on Alice's diagram, so
  his effective permission is \<open>owner\<close>, and all three operations refuse him. Carol, whose
  effective permission is \<open>none\<close>, is refused with 404 and not with 403.
\<close>

theorem owner_level_grantee_cannot_manage_shares:
  "effectivePermission db0 ''bob'' doc1 = Some OWNER \<and>
   findByPk (diagrams db0) ''d1'' = Some doc1 \<and>
   shareDiagram db0 ''s3'' (Some ''bob'') ''d1'' ''carol'' VIEWER =
     ((404, Error ''Diagram not found or access denied''), db0) \<and>
   updateShare db0 (Some ''bob'') ''d1'' ''dave'' VIEWER =
     ((404, Error ''Diagram not found or access denied''), db0) \<and>
   revokeShare db0 (Some ''bob'') ''d1'' ''dave'' =
     ((404, Error ''Diagram not found or access denied''), db0) \<and>
   effectivePermission db0 ''carol'' doc1 = None \<and>
   fst (fst (shareDiagram db0 ''s3'' (Some ''carol'') ''d1'' ''bob'' VIEWER)) = 404"
  by (simp add: shareDiagram_def updateShare_def revokeShare_def effectivePermission_def
        example_defs table_defs)

theorem share_management_only_for_creator_witness:
  "fst (shareDiagram db0 ''s3'' (Some ''bob'') ''d1'' ''carol'' VIEWER) =
     (404, Error ''Diagram not found or access denied'') \<and>
   fst (shareDiagram db0 ''s3'' (Some ''alice'') ''d1'' ''carol'' VIEWER) \<noteq>
     (404, Error ''Diagram not found or access denied'')"
proof -
  have h1: "''bob'' \<noteq> []" "''alice'' \<noteq> []" by simp_all
  have h2: "findByPk (diagrams db0) ''d1'' = Some doc1"
    by (simp add: example_defs table_defs)
  have h3: "pk_diagrams db0" by (simp add: pk_diagrams_def example_defs)
  have h4: "''bob'' \<noteq> userId doc1" "\<not> ''alice'' \<noteq> userId doc1" by (simp_all add: example_defs)
  note a = share_management_only_for_creator [OF h1(1) h2 h3, of "''s3''" "''carol''" VIEWER, THEN conjunct1]
  note b = share_management_only_for_creator [OF h1(2) h2 h3, of "''s3''" "''carol''" VIEWER, THEN conjunct1]
  from a h4(1) have c1: "fst (shareDiagram db0 ''s3'' (Some ''bob'') ''d1'' ''carol'' VIEWER) =
     (404, Error ''Diagram not found or access denied'')" by (rule iffD2)
  from b h4(2) have c2: "fst (shareDiagram db0 ''s3'' (Some ''alice'') ''d1'' ''carol'' VIEWER) \<noteq>
     (404, Error ''Diagram not found or access denied'')" by blast
  from c1 c2 show ?thesis by (rule conjI)
qed

lemma delete_char:
  assumes "u \<noteq> []" and "pk_diagrams s"
  shows "delete s (Some u) i =
     (case findByPk (diagrams s) i of
        None \<Rightarrow> ((404, Error ''Diagram not found or access denied''), s)
      | Some d \<Rightarrow>
          if userId d = u
          then ((200, Message ''Diagram deleted successfully''), Diagram_destroy s d)
          else ((404, Error ''Diagram not found or access denied''), s))"
proof (cases "findByPk (diagrams s) i")
  case None
  with assms show ?thesis by (simp add: delete_def findOwned_None)
next
  case (Some d)
  with assms findOwned_iff [OF assms(2) [unfolded pk_diagrams_def] Some, of u]
  show ?thesis by (simp add: delete_def)
qed

lemma destroy_gone:
  "findByPk (diagrams (Diagram_destroy s d)) (diagId d) = None \<and>
   filter (\<lambda>e. diagramId e = diagId d) (diagram_shares (Diagram_destroy s d)) = []"
  by (simp add: Diagram_destroy_def findByPk_filter filter_empty_conv)

text \<open>
  Claim C4, as the code has it. \<open>delete\<close> answers 200 exactly when a diagram with the key
  exists and the requester is its creator; the diagram and its share entries are then
  gone. In every other case, the diagram missing or the requester not being its creator
  (an owner-level share entry does not help), the answer is the same 404 "Diagram not
  found or access denied" and the database is unchanged: there is no separate answer for
  a forbidden deletion.
\<close>

theorem delete_only_by_creator:
  assumes "u \<noteq> []" and "pk_diagrams s"
  shows "((fst (delete s (Some u) i) = (200, Message ''Diagram deleted successfully'')) =
            (\<exists>d. findByPk (diagrams s) i = Some d \<and> userId d = u)) \<and>
         ((\<exists>d. findByPk (diagrams s) i = Some d \<and> userId d = u) \<longrightarrow>
            findByPk (diagrams (snd (delete s (Some u) i))) i = None \<and>
            filter (\<lambda>e. diagramId e = i) (diagram_shares (snd (delete s (Some u) i))) = []) \<and>
         (\<not> (\<exists>d. findByPk (diagrams s) i = Some d \<and> userId d = u) \<longrightarrow>
            delete s (Some u) i = ((404, Error ''Diagram not found or access denied''), s))"
proof (cases "findByPk (diagrams s) i")
  case None
  with delete_char [OF assms, of i] show ?thesis by simp
next
  case (Some d)
  from Some have id: "diagId d = i" by (rule findByPk_diagId)
  show ?thesis
    using delete_char [OF assms, of i] Some destroy_gone [of s d] id
    by (cases "userId d = u") simp_all
qed

text \<open>
  The claim as it was stated fails: for the existing diagram \<open>d1\<close> and Bob, who holds an
  owner-level entry, \<open>delete\<close> gives the answer it gives for the key \<open>d9\<close> of no diagram.
\<close>

theorem delete_refusal_is_not_found:
  "findByPk (diagrams db0) ''d1'' = Some doc1 \<and>
   effectivePermission db0 ''bob'' doc1 = Some OWNER \<and>
   delete db0 (Some ''bob'') ''d1'' = ((404, Error ''Diagram not found or access denied''), db0) \<and>
   findByPk (diagrams db0) ''d9'' = None \<and>
   delete db0 (Some ''bob'') ''d9'' = ((404, Error ''Diagram not found or access denied''), db0)"
  by (simp add: delete_def effectivePermission_def example_defs table_defs)

theorem delete_only_by_creator_witness:
  "fst (delete db0 (Some ''alice'') ''d1'') = (200, Message ''Diagram deleted successfully'') \<and>
   findByPk (diagrams (snd (delete db0 (Some ''alice'') ''d1''))) ''d1'' = None \<and>
   delete db0 (Some ''bob'') ''d1'' = ((404, Error ''Diagram not found or access denied''), db0)"
proof -
  have h1: "''alice'' \<noteq> []" "''bob'' \<noteq> []" by simp_all
  have h3: "pk_diagrams db0" by (simp add: pk_diagrams_def example_defs)
  have h4: "\<exists>d. findByPk (diagrams db0) ''d1'' = Some d \<and> userId d = ''alice''"
    by (simp add: example_defs table_defs)
  have h5: "\<not> (\<exists>d. findByPk (diagrams db0) ''d1'' = Some d \<and> userId d = ''bob'')"
    by (simp add: example_defs table_defs)
  note a = delete_only_by_creator [OF h1(1) h3, of "''d1''"]
  note b = delete_only_by_creator [OF h1(2) h3, of "''d1''"]
  have c1: "fst (delete db0 (Some ''alice'') ''d1'') = (200, Message ''Diagram deleted successfully'')"
    using a [THEN conjunct1] h4 by (rule iffD2)
  have c2: "findByPk (diagrams (snd (delete db0 (Some ''alice'') ''d1''))) ''d1'' = None"
    using a [THEN conjunct2, THEN conjunct1, THEN mp, OF h4] by (rule conjunct1)
  have c3: "delete db0 (Some ''bob'') ''d1'' = ((404, Error ''Diagram not found or access denied''), db0)"
    using b [THEN conjunct2, THEN conjunct2, THEN mp, OF h5] .
  from c1 c2 c3 show ?thesis by (intro conjI)
qed

section \<open>Operations without a permission check\<close>

lemma duplicate_row:
  "fold build_attr
     (tl (toJSON d) @ [A_name n, A_userId u, A_lastModifiedBy m, A_version 1, A_gistId None,
                       A_loadedFromGistId g])
     (defaults now fresh) =
   d\<lparr>diagId := fresh, name := n, userId := u, lastModifiedBy := m, version := 1,
     gistId := None, loadedFromGistId := g\<rparr>"
  by (cases d) (simp add: toJSON_def defaults_def)

text \<open>
  Claim C3, as the code has it. \<open>duplicate\<close>, \<open>sync\<close> and \<open>getVersion\<close> check no
  permission: what follows holds for every authenticated actor and every existing
  diagram, whatever the actor's effective permission. \<open>duplicate\<close> inserts a row owned by
  the actor, with version 1 and a fresh key, that copies every column of the original but
  three: the name is the original's followed by " (Copy)", \<open>gistId\<close> is null and
  \<open>loadedFromGistId\<close> is the original's \<open>gistId\<close>. It succeeds when the actor is a user,
  the key is fresh and the new name fits its column, that is when the original's name has
  at most 248 characters. \<open>sync\<close> with a version other than the stored one answers 409
  with the whole row, and \<open>getVersion\<close> answers with the key, the version,
  \<open>lastModified\<close> and \<open>lastModifiedBy\<close>.
\<close>

theorem duplicate_sync_getVersion_unchecked:
  assumes "u \<noteq> []" and "findByPk (diagrams s) i = Some d"
  shows "(u \<in> set (users s) \<and> row_ok s d \<and> length (name d) \<le> 248 \<and>
          findByPk (diagrams s) fresh = None \<longrightarrow>
            duplicate s now fresh (Some u) i =
              ((201, DiagramJson
                 (d\<lparr>diagId := fresh, name := name d @ '' (Copy)'', userId := u,
                    lastModifiedBy := Some u, version := 1, gistId := None,
                    loadedFromGistId := gistId d\<rparr>)),
               s\<lparr>diagrams := diagrams s @
                    [d\<lparr>diagId := fresh, name := name d @ '' (Copy)'', userId := u,
                       lastModifiedBy := Some u, version := 1, gistId := None,
                       loadedFromGistId := gistId d\<rparr>]\<rparr>)) \<and>
         (v \<noteq> version d \<longrightarrow>
            sync s (Some u) i v = ((409, SyncConflict ''Diagram has been updated'' d), s)) \<and>
         getVersion s (Some u) i =
           ((200, VersionInfo i (version d) (lastModified d) (lastModifiedBy d)), s)"
proof (intro conjI impI)
  assume h: "u \<in> set (users s) \<and> row_ok s d \<and> length (name d) \<le> 248 \<and>
          findByPk (diagrams s) fresh = None"
  let ?c = "d\<lparr>diagId := fresh, name := name d @ '' (Copy)'', userId := u,
              lastModifiedBy := Some u, version := 1, gistId := None,
              loadedFromGistId := gistId d\<rparr>"
  from h have ok: "row_ok s ?c"
    by (simp add: row_ok_def varchar_ok_def user_ref_ok_def)
  then have "Diagram_create s now fresh
       (tl (toJSON d) @ [A_name (name d @ '' (Copy)''), A_userId u, A_lastModifiedBy (Some u),
          A_version 1, A_gistId None, A_loadedFromGistId (gistId d)]) =
     Some (?c, s\<lparr>diagrams := diagrams s @ [?c]\<rparr>)"
    unfolding Diagram_create_def Let_def duplicate_row using h by simp
  with assms show "duplicate s now fresh (Some u) i =
      ((201, DiagramJson ?c), s\<lparr>diagrams := diagrams s @ [?c]\<rparr>)"
    by (simp add: duplicate_def)
next
  assume "v \<noteq> version d"
  with assms show "sync s (Some u) i v =
      ((409, SyncConflict ''Diagram has been updated'' d), s)"
    by (auto simp: sync_def)
next
  from assms findByPk_diagId [OF assms(2)]
  show "getVersion s (Some u) i =
      ((200, VersionInfo i (version d) (lastModified d) (lastModifiedBy d)), s)"
    by (simp add: getVersion_def)
qed

text \<open>
  The claim as it was stated fails. Carol, with effective permission \<open>none\<close>, duplicates
  Alice's diagram: the copy does not hold the original's name, \<open>gistId\<close> or
  \<open>loadedFromGistId\<close>. And the duplication of a diagram whose name has 249 characters
  does not succeed: the name of the copy exceeds \<open>VARCHAR(255)\<close>.
\<close>

theorem duplicate_changes_name_or_fails:
  "effectivePermission db0 ''carol'' doc1 = None \<and>
   findByPk (diagrams db0) ''d1'' = Some doc1 \<and>
   name doc1 = ''Shop'' \<and> gistId doc1 = Some ''g1'' \<and> loadedFromGistId doc1 = Some ''g0'' \<and>
   fst (duplicate db0 30 ''d2'' (Some ''carol'') ''d1'') =
     (201, DiagramJson
        (doc1\<lparr>diagId := ''d2'', name := ''Shop (Copy)'', userId := ''carol'',
              lastModifiedBy := Some ''carol'', version := 1, gistId := None,
              loadedFromGistId := Some ''g1''\<rparr>)) \<and>
   findByPk (diagrams db_long) ''d1'' = Some doc_long \<and>
   length (name doc_long) = 249 \<and>
   duplicate db_long 30 ''d2'' (Some ''carol'') ''d1'' =
     ((500, Error ''Failed to duplicate diagram''), db_long)"
  by (simp add: duplicate_def effectivePermission_def toJSON_def Let_def example_defs
        table_defs)

theorem duplicate_sync_getVersion_unchecked_witness:
  "effectivePermission db0 ''carol'' doc1 = None \<and>
   fst (duplicate db0 30 ''d2'' (Some ''carol'') ''d1'') =
     (201, DiagramJson
        (doc1\<lparr>diagId := ''d2'', name := name doc1 @ '' (Copy)'', userId := ''carol'',
              lastModifiedBy := Some ''carol'', version := 1, gistId := None,
              loadedFromGistId := gistId doc1\<rparr>)) \<and>
   sync db0 (Some ''carol'') ''d1'' 2 =
     ((409, SyncConflict ''Diagram has been updated'' doc1), db0) \<and>
   getVersion db0 (Some ''carol'') ''d1'' =
     ((200, VersionInfo ''d1'' (version doc1) (lastModified doc1) (lastModifiedBy doc1)), db0)"
proof -
  have h0: "effectivePermission db0 ''carol'' doc1 = None"
    by (simp add: effectivePermission_def example_defs table_defs)
  have h1: "''carol'' \<noteq> []" by simp
  have h2: "findByPk (diagrams db0) ''d1'' = Some doc1"
    by (simp add: example_defs table_defs)
  have h3: "''carol'' \<in> set (users db0) \<and> row_ok db0 doc1 \<and> length (name doc1) \<le> 248 \<and>
          findByPk (diagrams db0) ''d2'' = None"
    by (simp add: example_defs table_defs)
  have h4: "2 \<noteq> version doc1" by (simp add: example_defs)
  note a = duplicate_sync_getVersion_unchecked [OF h1 h2, where fresh = "''d2''" and v = 2 and now = 30]
  have c1: "fst (duplicate db0 30 ''d2'' (Some ''carol'') ''d1'') =
     (201, DiagramJson
        (doc1\<lparr>diagId := ''d2'', name := name doc1 @ '' (Copy)'', userId := ''carol'',
              lastModifiedBy := Some ''carol'', version := 1, gistId := None,
              loadedFromGistId := gistId doc1\<rparr>))"
    using a [THEN conjunct1, THEN mp, OF h3] by simp
  note c2 = a [THEN conjunct2, THEN conjunct1, THEN mp, OF h4]
  note c3 = a [THEN conjunct2, THEN conjunct2]
  from h0 c1 c2 c3 show ?thesis by (intro conjI)
qed

section \<open>Revoking the last share entry\<close>

lemma revokeShare_200:
  assumes "fst (fst (revokeShare s uo i g)) = 200"
  shows "\<exists>u dg. uo = Some u \<and> u \<noteq> [] \<and> findOwned (diagrams s) i u = Some dg \<and>
     (if DiagramShare_count (snd (DiagramShare_destroy s i g)) i = 0
      then \<exists>d'. Diagram_update (snd (DiagramShare_destroy s i g)) dg [A_isShared False] =
                   Some (d', snd (revokeShare s uo i g))
      else snd (revokeShare s uo i g) = snd (DiagramShare_destroy s i g))"
  using assms
  by (auto simp: revokeShare_def unauthorized_def split: option.splits if_splits prod.splits)

text \<open>
  Claim C9, as the code has it. After a successful \<open>revokeShare\<close> of the only share entry
  of a diagram, the flag \<open>isShared\<close> of the diagram is false and no entry refers to it.
  When the former grantee is not the creator of the diagram, the grantee's effective
  permission is \<open>none\<close> and a subsequent \<open>update\<close> by the grantee answers 403.
\<close>

theorem revoke_last_share:
  assumes pk: "pk_diagrams s" and d: "findByPk (diagrams s) i = Some d"
    and only: "filter (\<lambda>e. diagramId e = i) (diagram_shares s) = [e]"
    and g: "sharedWithUserId e = g"
    and ok: "fst (fst (revokeShare s uo i g)) = 200"
  shows "findByPk (diagrams (snd (revokeShare s uo i g))) i = Some (d\<lparr>isShared := False\<rparr>) \<and>
         filter (\<lambda>e. diagramId e = i) (diagram_shares (snd (revokeShare s uo i g))) = [] \<and>
         (g \<noteq> userId d \<longrightarrow>
            effectivePermission (snd (revokeShare s uo i g)) g (d\<lparr>isShared := False\<rparr>) = None \<and>
            (g \<noteq> [] \<longrightarrow>
               update (snd (revokeShare s uo i g)) now (Some g) i ev body =
                 ((403, Error ''No edit permission''), snd (revokeShare s uo i g))))"
proof -
  let ?s1 = "snd (DiagramShare_destroy s i g)"
  let ?s2 = "snd (revokeShare s uo i g)"
  let ?d' = "d\<lparr>isShared := False\<rparr>"
  have s1: "diagrams ?s1 = diagrams s"
    "diagram_shares ?s1 =
       filter (\<lambda>e. \<not> (diagramId e = i \<and> sharedWithUserId e = g)) (diagram_shares s)"
    by (simp_all add: DiagramShare_destroy_def)
  have "e \<in> set (filter (\<lambda>e. diagramId e = i) (diagram_shares s))"
    using only by simp
  then have e: "diagramId e = i" by simp
  have "filter (\<lambda>x. diagramId x = i) (diagram_shares ?s1) =
        filter (\<lambda>x. \<not> (diagramId x = i \<and> sharedWithUserId x = g))
          (filter (\<lambda>x. diagramId x = i) (diagram_shares s))"
    by (simp add: s1 conj_commute)
  also have "\<dots> = []" using only e g by simp
  finally have none1: "filter (\<lambda>x. diagramId x = i) (diagram_shares ?s1) = []" .
  then have cnt: "DiagramShare_count ?s1 i = 0" by (simp add: DiagramShare_count_def)
  from revokeShare_200 [OF ok] cnt obtain u dg d' where u: "uo = Some u" "u \<noteq> []"
    and own: "findOwned (diagrams s) i u = Some dg"
    and upd: "Diagram_update ?s1 dg [A_isShared False] = Some (d', ?s2)"
    by auto
  from findOwned_iff [OF pk [unfolded pk_diagrams_def] d, of u] own have dg: "dg = d"
    by (simp split: if_splits)
  from Diagram_update_Some [OF upd] dg have d': "d' = ?d'"
    and s2: "diagram_shares ?s2 = diagram_shares ?s1"
    by simp_all
  from d s1 have "findByPk (diagrams ?s1) i = Some d" by simp
  from Diagram_update_findByPk [OF upd [unfolded dg] this] d'
  have row: "findByPk (diagrams ?s2) i = Some ?d'" by simp
  from none1 s2 have none2: "filter (\<lambda>x. diagramId x = i) (diagram_shares ?s2) = []"
    by simp
  then have nofind: "findShare (diagram_shares ?s2) i w = None"
    "findEditShare (diagram_shares ?s2) i w = None" for w
    by (auto simp: findShare_def findEditShare_def find_None_iff filter_empty_conv)
  have perm: "effectivePermission ?s2 g ?d' = None" if "g \<noteq> userId d"
    using that nofind(1) [of g] findByPk_diagId [OF d]
    by (simp add: effectivePermission_def)
  have forb: "update ?s2 now (Some g) i ev body = ((403, Error ''No edit permission''), ?s2)"
    if "g \<noteq> userId d" and "g \<noteq> []"
  proof -
    from update_403_iff(1) [OF that(2) row, of now ev body] that(1) nofind(2) [of g]
    have "fst (fst (update ?s2 now (Some g) i ev body)) = 403" by simp
    from update_403_iff(2) [OF that(2) row this] show ?thesis .
  qed
  from row none2 perm forb show ?thesis by blast
qed

text \<open>
  The claim as it was stated fails when the grantee is the creator: \<open>shareDiagram\<close> lets
  Alice share her diagram with herself. After she revokes that only entry her effective
  permission is \<open>owner\<close>, not \<open>none\<close>, and her \<open>update\<close> is accepted.
\<close>

theorem revoked_creator_keeps_owner_rights:
  "shareDiagram db_alone ''s1'' (Some ''alice'') ''d1'' ''alice'' VIEWER =
     ((201, ShareJson ''Diagram shared successfully''
              \<lparr>shareId = ''s1'', diagramId = ''d1'', sharedWithUserId = ''alice'',
                sharedByUserId = ''alice'', permissionLevel = VIEWER\<rparr>),
      \<lparr>users = [''alice''], diagrams = [doc1],
       diagram_shares = [\<lparr>shareId = ''s1'', diagramId = ''d1'', sharedWithUserId = ''alice'',
                           sharedByUserId = ''alice'', permissionLevel = VIEWER\<rparr>]\<rparr>) \<and>
   revokeShare
     \<lparr>users = [''alice''], diagrams = [doc1],
      diagram_shares = [\<lparr>shareId = ''s1'', diagramId = ''d1'', sharedWithUserId = ''alice'',
                          sharedByUserId = ''alice'', permissionLevel = VIEWER\<rparr>]\<rparr>
     (Some ''alice'') ''d1'' ''alice'' =
     ((200, Message ''Share revoked successfully''), db_alone) \<and>
   findByPk (diagrams db_alone) ''d1'' = Some (doc1\<lparr>isShared := False\<rparr>) \<and>
   effectivePermission db_alone ''alice'' (doc1\<lparr>isShared := False\<rparr>) = Some OWNER \<and>
   fst (fst (update db_alone 20 (Some ''alice'') ''d1'' (Some 3) [A_name ''x''])) = 200"
  by (simp add: shareDiagram_def revokeShare_def update_def effectivePermission_def Let_def
        example_defs table_defs)

theorem revoke_last_share_witness:
  "findByPk (diagrams (snd (revokeShare db1 (Some ''alice'') ''d1'' ''dave''))) ''d1'' =
     Some (doc1\<lparr>isShared := False\<rparr>) \<and>
   effectivePermission (snd (revokeShare db1 (Some ''alice'') ''d1'' ''dave'')) ''dave''
     (doc1\<lparr>isShared := False\<rparr>) = None \<and>
   update (snd (revokeShare db1 (Some ''alice'') ''d1'' ''dave'')) 20 (Some ''dave'') ''d1''
       (Some 3) [A_name ''x''] =
     ((403, Error ''No edit permission''), snd (revokeShare db1 (Some ''alice'') ''d1'' ''dave''))"
proof -
  have h1: "pk_diagrams db1" by (simp add: pk_diagrams_def example_defs)
  have h2: "findByPk (diagrams db1) ''d1'' = Some doc1" by (simp add: example_defs table_defs)
  have h3: "filter (\<lambda>e. diagramId e = ''d1'') (diagram_shares db1) = [share_dave]"
    by (simp add: example_defs)
  have h4: "sharedWithUserId share_dave = ''dave''" by (simp add: example_defs)
  have h5: "fst (fst (revokeShare db1 (Some ''alice'') ''d1'' ''dave'')) = 200"
    by (simp add: revokeShare_def Let_def example_defs table_defs)
  have h6: "''dave'' \<noteq> userId doc1" "''dave'' \<noteq> []" by (simp_all add: example_defs)
  note a = revoke_last_share [OF h1 h2 h3 h4 h5, where now = 20 and ev = "Some 3" and body = "[A_name ''x'']"]
  note c1 = a [THEN conjunct1]
  note b = a [THEN conjunct2, THEN conjunct2, THEN mp, OF h6(1)]
  note c2 = b [THEN conjunct1]
  note c3 = b [THEN conjunct2, THEN mp, OF h6(2)]
  from c1 c2 c3 show ?thesis by (intro conjI)
qed

section \<open>The share registry\<close>

text \<open>What each handler does to the table \<open>diagram_shares\<close>.\<close>

lemma shareDiagram_shares:
  "diagram_shares (snd (shareDiagram s fresh uo i w l)) = diagram_shares s \<or>
   (\<exists>e. share_ok s e \<and>
      diagram_shares (snd (shareDiagram s fresh uo i w l)) = diagram_shares s @ [e])"
  by (auto simp: shareDiagram_def unauthorized_def DiagramShare_create_def Diagram_update_def
        Let_def split: option.splits if_splits prod.splits)

lemma findShare_mem: "findShare shs i w = Some sh \<Longrightarrow> sh \<in> set shs"
  by (auto simp: findShare_def find_Some_iff)

lemma updateShare_shares:
  "diagram_shares (snd (updateShare s uo i w l)) = diagram_shares s \<or>
   (\<exists>sh. sh \<in> set (diagram_shares s) \<and>
      diagram_shares (snd (updateShare s uo i w l)) =
        map (\<lambda>x. if shareId x = shareId sh then sh\<lparr>permissionLevel := l\<rparr> else x)
          (diagram_shares s))"
proof (cases "\<exists>u dg sh. uo = Some u \<and> u \<noteq> [] \<and> findOwned (diagrams s) i u = Some dg \<and>
    findShare (diagram_shares s) i w = Some sh")
  case True
  then obtain u dg sh where h: "uo = Some u" "u \<noteq> []"
    "findOwned (diagrams s) i u = Some dg" "findShare (diagram_shares s) i w = Some sh"
    by blast
  then have "diagram_shares (snd (updateShare s uo i w l)) =
      map (\<lambda>x. if shareId x = shareId sh then sh\<lparr>permissionLevel := l\<rparr> else x)
        (diagram_shares s)"
    by (simp add: updateShare_def DiagramShare_update_def Let_def)
  with findShare_mem [OF h(4)] show ?thesis by blast
next
  case False
  then have "diagram_shares (snd (updateShare s uo i w l)) = diagram_shares s"
    by (auto simp: updateShare_def unauthorized_def split: option.splits if_splits)
  then show ?thesis ..
qed

lemma revokeShare_shares:
  "\<exists>P. diagram_shares (snd (revokeShare s uo i w)) = filter P (diagram_shares s)"
proof -
  have "diagram_shares (snd (revokeShare s uo i w)) = diagram_shares s \<or>
        diagram_shares (snd (revokeShare s uo i w)) =
          filter (\<lambda>e. \<not> (diagramId e = i \<and> sharedWithUserId e = w)) (diagram_shares s)"
    by (auto simp: revokeShare_def unauthorized_def DiagramShare_destroy_def
          Diagram_update_def Let_def split: option.splits if_splits prod.splits)
  then show ?thesis
  proof
    assume "diagram_shares (snd (revokeShare s uo i w)) = diagram_shares s"
    then have "diagram_shares (snd (revokeShare s uo i w)) =
               filter (\<lambda>e. True) (diagram_shares s)" by simp
    then show ?thesis by blast
  next
    assume "diagram_shares (snd (revokeShare s uo i w)) =
          filter (\<lambda>e. \<not> (diagramId e = i \<and> sharedWithUserId e = w)) (diagram_shares s)"
    then show ?thesis by blast
  qed
qed

lemma delete_shares:
  "\<exists>P. diagram_shares (snd (delete s uo i)) = filter P (diagram_shares s)"
proof -
  have "diagram_shares (snd (delete s uo i)) = filter (\<lambda>e. True) (diagram_shares s) \<or>
        (\<exists>k. diagram_shares (snd (delete s uo i)) =
          filter (\<lambda>e. diagramId e \<noteq> k) (diagram_shares s))"
    by (auto simp: delete_def unauthorized_def Diagram_destroy_def
          split: option.splits if_splits)
  then show ?thesis by blast
qed

lemma other_shares:
  "diagram_shares (snd (getAll s uo)) = diagram_shares s"
  "diagram_shares (snd (getById s uo i)) = diagram_shares s"
  "diagram_shares (snd (create s now fresh uo body)) = diagram_shares s"
  "diagram_shares (snd (update s now uo i ev body)) = diagram_shares s"
  "diagram_shares (snd (duplicate s now fresh uo i)) = diagram_shares s"
  "diagram_shares (snd (getVersion s uo i)) = diagram_shares s"
  "diagram_shares (snd (sync s uo i v)) = diagram_shares s"
  "diagram_shares (snd (getShares s uo i)) = diagram_shares s"
  "diagram_shares (snd (getSharedWithMe s uo)) = diagram_shares s"
  by (auto simp: getAll_def getById_def create_def update_def duplicate_def getVersion_def
        sync_def getShares_def getSharedWithMe_def unauthorized_def Diagram_create_def
        Diagram_update_def Let_def split: option.splits if_splits prod.splits)

text \<open>The primary key and the unique index are kept by deletions, by an accepted insertion
  and by the change of a level.\<close>

lemma shares_inv_filter: "shares_inv shs \<Longrightarrow> shares_inv (filter P shs)"
  by (simp add: shares_inv_def distinct_map_filter)

lemma shares_inv_insert:
  assumes "shares_inv (diagram_shares s)" and "share_ok s e"
  shows "shares_inv (diagram_shares s @ [e])"
proof -
  from assms(2) have "share_key e \<notin> share_key ` set (diagram_shares s)"
    by (auto simp: share_ok_def findShare_def find_None_iff share_key_def)
  moreover from assms(2) have "shareId e \<notin> shareId ` set (diagram_shares s)"
    by (auto simp: share_ok_def find_None_iff)
  ultimately show ?thesis using assms(1) by (simp add: shares_inv_def)
qed

lemma shares_inv_level:
  assumes "shares_inv shs" and "sh \<in> set shs"
  shows "shares_inv
           (map (\<lambda>x. if shareId x = shareId sh then sh\<lparr>permissionLevel := l\<rparr> else x) shs)"
proof -
  have same: "x = sh" if "x \<in> set shs" and "shareId x = shareId sh" for x
    using assms that by (meson distinct_map inj_onD shares_inv_def)
  have a: "map shareId
          (map (\<lambda>x. if shareId x = shareId sh then sh\<lparr>permissionLevel := l\<rparr> else x) shs) =
        map shareId shs"
    by (simp add: comp_def cong: map_cong)
  have b: "map share_key
          (map (\<lambda>x. if shareId x = shareId sh then sh\<lparr>permissionLevel := l\<rparr> else x) shs) =
        map share_key shs"
    using same by (auto simp: share_key_def)
  show ?thesis
    unfolding shares_inv_def a b using assms(1) [unfolded shares_inv_def] .
qed

lemma handle_shares_inv:
  assumes "shares_inv (diagram_shares s)"
  shows "shares_inv (diagram_shares (snd (handle s now fresh uo r)))"
proof (cases r)
  case (Delete i)
  with delete_shares [of s uo i] assms show ?thesis by (auto simp: shares_inv_filter)
next
  case (ShareDiagram i w l)
  with shareDiagram_shares [of s fresh uo i w l] assms show ?thesis
    by (auto simp: shares_inv_insert)
next
  case (UpdateShare i w l)
  with updateShare_shares [of s uo i w l] assms show ?thesis
    by (auto simp: shares_inv_level)
next
  case (RevokeShare i w)
  with revokeShare_shares [of s uo i w] assms show ?thesis by (auto simp: shares_inv_filter)
qed (simp_all add: other_shares assms)

lemma run_shares_inv:
  "shares_inv (diagram_shares s) \<Longrightarrow> shares_inv (diagram_shares (run s evs))"
proof (induction evs arbitrary: s)
  case Nil
  then show ?case by (simp add: run_def)
next
  case (Cons e evs)
  from handle_shares_inv [OF Cons.prems]
  have "shares_inv (diagram_shares (snd (handle s (ev_now e) (ev_fresh e) (ev_user e)
          (ev_request e))))" .
  from Cons.IH [OF this] show ?case by (simp add: run_def)
qed

lemma distinct_key_count:
  "distinct (map f xs) \<Longrightarrow> length (filter (\<lambda>x. f x = k) xs) \<le> 1"
proof (induction xs)
  case Nil
  then show ?case by simp
next
  case (Cons a xs)
  show ?case
  proof (cases "f a = k")
    case True
    from Cons.prems have "f a \<notin> f ` set xs" by simp
    with True have "\<forall>x\<in>set xs. f x \<noteq> k" by blast
    then have "filter (\<lambda>x. f x = k) xs = []"
      by (simp add: filter_empty_conv)
    with True show ?thesis by simp
  next
    case False
    with Cons show ?thesis by simp
  qed
qed


lemma shareDiagram_existing:
  assumes "findShare (diagram_shares s) i g \<noteq> None"
  shows "snd (shareDiagram s fresh uo i g l) = s"
    and "fst (fst (shareDiagram s fresh uo i g l)) \<noteq> 201"
    and "u \<noteq> [] \<Longrightarrow> findOwned (diagrams s) i u = Some d \<Longrightarrow> g \<in> set (users s) \<Longrightarrow>
         shareDiagram s fresh (Some u) i g l =
           ((409, Error ''Diagram already shared with this user''), s)"
  using assms
  by (auto simp: shareDiagram_def unauthorized_def split: option.splits)

text \<open>
  Claim C10, as the code has it. When an entry for the pair (diagram, grantee) exists,
  \<open>shareDiagram\<close> for that pair never succeeds and leaves the database, the share
  registry included, as it was, whoever asks. The answer is 409 "Diagram already shared
  with this user" when the requester is the creator of the diagram and the grantee an
  existing user: the lookup by key and creator and the lookup of the user come first.
  Every request, and so every run of requests, keeps the primary key and the unique index
  of the registry, and under the unique index a pair has at most one entry.
\<close>

theorem grant_existing_pair_already_shared:
  "(findShare (diagram_shares s) i g \<noteq> None \<longrightarrow>
      snd (shareDiagram s fresh uo i g l) = s \<and>
      fst (fst (shareDiagram s fresh uo i g l)) \<noteq> 201) \<and>
   (findShare (diagram_shares s) i g \<noteq> None \<and> u \<noteq> [] \<and>
    findOwned (diagrams s) i u = Some d \<and> g \<in> set (users s) \<longrightarrow>
      shareDiagram s fresh (Some u) i g l =
        ((409, Error ''Diagram already shared with this user''), s)) \<and>
   (pk_shares s \<and> unique_diagram_user s \<longrightarrow>
      pk_shares (snd (handle s now fresh uo r)) \<and>
      unique_diagram_user (snd (handle s now fresh uo r))) \<and>
   (pk_shares s \<and> unique_diagram_user s \<longrightarrow>
      pk_shares (run s evs) \<and> unique_diagram_user (run s evs)) \<and>
   (unique_diagram_user s \<longrightarrow>
      length (filter (\<lambda>e. diagramId e = i \<and> sharedWithUserId e = g) (diagram_shares s)) \<le> 1)"
proof -
  have inv: "shares_inv (diagram_shares t) = (pk_shares t \<and> unique_diagram_user t)" for t
    by (simp add: shares_inv_def pk_shares_def unique_diagram_user_def)
  have a: "snd (shareDiagram s fresh uo i g l) = s \<and>
      fst (fst (shareDiagram s fresh uo i g l)) \<noteq> 201"
    if "findShare (diagram_shares s) i g \<noteq> None"
    using shareDiagram_existing(1,2) [OF that] by simp
  have b: "shareDiagram s fresh (Some u) i g l =
        ((409, Error ''Diagram already shared with this user''), s)"
    if "findShare (diagram_shares s) i g \<noteq> None \<and> u \<noteq> [] \<and>
        findOwned (diagrams s) i u = Some d \<and> g \<in> set (users s)"
    using that shareDiagram_existing(3) [of s i g u d fresh l] by blast
  have c: "pk_shares (snd (handle s now fresh uo r)) \<and>
      unique_diagram_user (snd (handle s now fresh uo r))"
    if "pk_shares s \<and> unique_diagram_user s"
    using that handle_shares_inv [of s now fresh uo r] by (simp add: inv)
  have d: "pk_shares (run s evs) \<and> unique_diagram_user (run s evs)"
    if "pk_shares s \<and> unique_diagram_user s"
    using that run_shares_inv [of s evs] by (simp add: inv)
  have e: "length (filter (\<lambda>e. diagramId e = i \<and> sharedWithUserId e = g)
             (diagram_shares s)) \<le> 1"
    if "unique_diagram_user s"
    using distinct_key_count [of share_key "diagram_shares s" "(i, g)"] that
    by (simp add: unique_diagram_user_def share_key_def)
  from a b c d e show ?thesis by blast
qed

theorem grant_existing_pair_already_shared_witness:
  "shareDiagram db0 ''s3'' (Some ''alice'') ''d1'' ''bob'' VIEWER =
     ((409, Error ''Diagram already shared with this user''), db0) \<and>
   pk_shares (run db0 evs0) \<and> unique_diagram_user (run db0 evs0) \<and>
   length (filter (\<lambda>e. diagramId e = ''d1'' \<and> sharedWithUserId e = ''bob'')
             (diagram_shares db0)) \<le> 1"
proof -
  have h1: "findShare (diagram_shares db0) ''d1'' ''bob'' \<noteq> None \<and> ''alice'' \<noteq> [] \<and>
    findOwned (diagrams db0) ''d1'' ''alice'' = Some doc1 \<and> ''bob'' \<in> set (users db0)"
    by (simp add: example_defs table_defs)
  have h2: "pk_shares db0 \<and> unique_diagram_user db0"
    by (simp add: pk_shares_def unique_diagram_user_def share_key_def example_defs)
  note a = grant_existing_pair_already_shared [where s = db0 and i = "''d1''" and g = "''bob''" and u = "''alice''"
      and d = doc1 and fresh = "''s3''" and l = VIEWER and evs = evs0]
  note c1 = a [THEN conjunct2, THEN conjunct1, THEN mp, OF h1]
  note c2 = a [THEN conjunct2, THEN conjunct2, THEN conjunct2, THEN conjunct1, THEN mp, OF h2]
  note c3 = a [THEN conjunct2, THEN conjunct2, THEN conjunct2, THEN conjunct2, THEN mp,
      OF h2 [THEN conjunct2]]
  from c1 c2 c3 show ?thesis by (intro conjI) (elim conjE, assumption)+
qed

text \<open>
  The claim as it was stated fails for a requester other than the creator. Bob holds an
  owner-level entry on Alice's diagram, and an entry for Dave exists; Bob's request to
  share the diagram with Dave is answered 404 "Diagram not found or access denied", not
  409.
\<close>

theorem grant_by_grantee_on_existing_pair_is_not_found:
  "effectivePermission db0 ''bob'' doc1 = Some OWNER \<and>
   findByPk (diagrams db0) ''d1'' = Some doc1 \<and>
   findShare (diagram_shares db0) ''d1'' ''dave'' = Some share_dave \<and>
   shareDiagram db0 ''s3'' (Some ''bob'') ''d1'' ''dave'' VIEWER =
     ((404, Error ''Diagram not found or access denied''), db0)"
  by (simp add: shareDiagram_def effectivePermission_def example_defs table_defs)

text \<open>The registry after the four requests of the example.\<close>

lemma run_example:
  "diagram_shares (run db0 evs0) =
     [share_dave, \<lparr>shareId = ''s3'', diagramId = ''d1'', sharedWithUserId = ''carol'',
                   sharedByUserId = ''alice'', permissionLevel = EDITOR\<rparr>]"
  by (simp add: run_def evs0_def shareDiagram_def updateShare_def revokeShare_def Let_def
        example_defs table_defs)

end
